theory Spec2Isabelle
  imports Main "HOL-Library.Sublist"
begin

section \<open>Strings and regular expressions of the Python source\<close>

text \<open>
  Python strings are modelled as \<open>string\<close> (lists of 8-bit characters), which covers the
  strings whose code points are below 256. \<open>'/'.join(parts)\<close> is \<open>join_slash\<close>.
\<close>

fun join_slash :: "string list \<Rightarrow> string" where
  "join_slash [] = []"
| "join_slash [x] = x"
| "join_slash (x # y # ys) = x @ CHR ''/'' # join_slash (y # ys)"

text \<open>
  The patterns handed to \<open>re.fullmatch\<close> in \<open>model.py\<close> use literal characters, the dot,
  alternation, concatenation and the star. The dot of Python's \<open>re\<close> (without
  \<open>DOTALL\<close>) matches every character except the newline.
\<close>

datatype regex =
    RNone
  | REps
  | RChr char
  | RDot
  | RAlt regex regex
  | RSeq regex regex
  | RStar regex

definition newline :: char where
  "newline = CHR 0x0A"

fun rlit :: "string \<Rightarrow> regex" where
  "rlit [] = REps"
| "rlit (c # cs) = RSeq (RChr c) (rlit cs)"

fun nullable :: "regex \<Rightarrow> bool" where
  "nullable RNone = False"
| "nullable REps = True"
| "nullable (RChr c) = False"
| "nullable RDot = False"
| "nullable (RAlt r s) = (nullable r \<or> nullable s)"
| "nullable (RSeq r s) = (nullable r \<and> nullable s)"
| "nullable (RStar r) = True"

fun deriv :: "char \<Rightarrow> regex \<Rightarrow> regex" where
  "deriv a RNone = RNone"
| "deriv a REps = RNone"
| "deriv a (RChr c) = (if a = c then REps else RNone)"
| "deriv a RDot = (if a = newline then RNone else REps)"
| "deriv a (RAlt r s) = RAlt (deriv a r) (deriv a s)"
| "deriv a (RSeq r s) =
     (if nullable r then RAlt (RSeq (deriv a r) s) (deriv a s) else RSeq (deriv a r) s)"
| "deriv a (RStar r) = RSeq (deriv a r) (RStar r)"

fun re_fullmatch :: "regex \<Rightarrow> string \<Rightarrow> bool" where
  "re_fullmatch r [] = nullable r"
| "re_fullmatch r (c # cs) = re_fullmatch (deriv c r) cs"

text \<open>The language of a pattern, against which the matcher is checked.\<close>

inductive_set star :: "string set \<Rightarrow> string set" for A :: "string set" where
  star_nil: "[] \<in> star A"
| star_app: "u \<in> A \<Longrightarrow> v \<in> star A \<Longrightarrow> u @ v \<in> star A"

fun lang :: "regex \<Rightarrow> string set" where
  "lang RNone = {}"
| "lang REps = {[]}"
| "lang (RChr c) = {[c]}"
| "lang RDot = {[c] | c. c \<noteq> newline}"
| "lang (RAlt r s) = lang r \<union> lang s"
| "lang (RSeq r s) = {u @ v | u v. u \<in> lang r \<and> v \<in> lang s}"
| "lang (RStar r) = star (lang r)"

text \<open>
  The three patterns of \<open>_format_paths\<close>:
  \<^verbatim>\<open>.*\.(x86_64|noarch)\.rpm\<close>, \<^verbatim>\<open>.*\.src\.rpm\<close> and
  \<^verbatim>\<open>.*\.(deb|dsc|tar\.xz|tar\.gz)\<close>.
\<close>

definition re_rpm_bin :: regex where
  "re_rpm_bin =
     RSeq (RStar RDot)
       (RSeq (RChr CHR ''.'')
         (RSeq (RAlt (rlit ''x86_64'') (rlit ''noarch'')) (rlit ''.rpm'')))"

definition re_rpm_src :: regex where
  "re_rpm_src = RSeq (RStar RDot) (rlit ''.src.rpm'')"

definition re_deb :: regex where
  "re_deb =
     RSeq (RStar RDot)
       (RSeq (RChr CHR ''.'')
         (RAlt (rlit ''deb'')
           (RAlt (rlit ''dsc'') (RAlt (rlit ''tar.xz'') (rlit ''tar.gz'')))))"

section \<open>Path formatting\<close>

datatype error =
    S3ModelRequestError string
  | RuntimeError string
  | KeyError string
  | NotImplementedError string

definition file_type_err :: "string \<Rightarrow> string \<Rightarrow> string" where
  "file_type_err filename dist_base =
     ''The \"'' @ filename @ ''\" file does not match the type of files '' @
     ''used in the '' @ dist_base @ ''-based repositories.''"

text \<open>
  \<open>filename[:1]\<close> is \<open>take 1 filename\<close>; \<open>filename.partition('_')[0]\<close> is the part
  before the first underscore, the whole name when there is none.
\<close>

definition partition_head :: "string \<Rightarrow> string" where
  "partition_head filename = takeWhile (\<lambda>c. c \<noteq> CHR ''_'') filename"

definition format_paths :: "string \<Rightarrow> string \<Rightarrow> string \<Rightarrow> string \<Rightarrow> error + string \<times> string" where
  "format_paths dist_path dist_version dist_base filename =
     (if dist_base = ''rpm'' then
        (if re_fullmatch re_rpm_bin filename then
           (let repo_path = join_slash [dist_path, dist_version, ''x86_64''];
                path = join_slash [repo_path, ''Packages'', filename]
            in Inr (repo_path, path))
         else if re_fullmatch re_rpm_src filename then
           (let repo_path = join_slash [dist_path, dist_version, ''SRPMS''];
                path = join_slash [repo_path, ''Packages'', filename]
            in Inr (repo_path, path))
         else Inl (S3ModelRequestError (file_type_err filename dist_base)))
      else if dist_base = ''deb'' then
        (if re_fullmatch re_deb filename then
           (let repo_path = dist_path;
                path = join_slash [repo_path, ''pool'', dist_version, ''main'',
                         take 1 filename, partition_head filename, filename]
            in Inr (repo_path, path))
         else Inl (S3ModelRequestError (file_type_err filename dist_base)))
      else Inl (RuntimeError (''Unknown repository base: '' @ dist_base @ ''.'')))"

section \<open>Settings, packages and the state of the model\<close>

text \<open>
  \<open>s3_settings['supported_repos']\<close>: the repository kinds, the tarantool series, the
  series the alias \<open>enabled\<close> stands for, and the distributions with their base
  (\<open>rpm\<close> or \<open>deb\<close>) and versions. The dictionary \<open>distrs\<close> is an association list,
  in the order \<open>items()\<close> yields it.
\<close>

record distr_description =
  base :: string
  versions :: "string list"

record supported_repos =
  sr_repo_kind :: "string list"
  sr_tarantool_series :: "string list"
  sr_enabled :: "string list"
  sr_distrs :: "(string \<times> distr_description) list"

record s3_settings =
  base_path :: "string option"
  bucket_name :: string
  supported :: supported_repos

type_synonym stream = string

record package =
  repo_kind :: string
  tarantool_series :: string
  dist :: string
  dist_version :: string
  files :: "(string \<times> stream) list"

text \<open>
  The object store is an external service. The calls \<open>_upload_files\<close> makes to it are
  recorded in order; their own failures (transport errors) are not modelled. A copy source
  is the dictionary \<open>{'Bucket': ..., 'Key': ...}\<close>, a pair here.
\<close>

type_synonym copy_source = "string \<times> string"

datatype s3_call =
    Upload string stream
  | Copy copy_source string

text \<open>
  The state one thread of the model works on: the set \<open>unsync_repos\<close>, whether the thread
  holds \<open>sync_lock\<close>, every access it makes to \<open>unsync_repos\<close> together with whether it
  held the lock at that moment, the calls to the object store, the runs of the \<open>mkrepo\<close>
  tool (repository path and exit status) and the sleeps (in seconds).
\<close>

datatype access = Truth | Pop | Add | Update

record model_state =
  unsync_repos :: "string set"
  sync_lock :: bool
  accesses :: "(access \<times> bool) list"
  s3_calls :: "s3_call list"
  mkrepo_calls :: "(string \<times> int) list"
  slept :: "nat list"

definition acquire :: "model_state \<Rightarrow> model_state" where
  "acquire s = s\<lparr>sync_lock := True\<rparr>"

definition release :: "model_state \<Rightarrow> model_state" where
  "release s = s\<lparr>sync_lock := False\<rparr>"

definition touch :: "access \<Rightarrow> model_state \<Rightarrow> model_state" where
  "touch a s = s\<lparr>accesses := accesses s @ [(a, sync_lock s)]\<rparr>"

definition unsync_truth :: "model_state \<Rightarrow> model_state" where
  "unsync_truth s = touch Truth s"

definition unsync_pop :: "string \<Rightarrow> model_state \<Rightarrow> model_state" where
  "unsync_pop r s = (touch Pop s)\<lparr>unsync_repos := unsync_repos s - {r}\<rparr>"

definition unsync_add :: "string \<Rightarrow> model_state \<Rightarrow> model_state" where
  "unsync_add r s = (touch Add s)\<lparr>unsync_repos := insert r (unsync_repos s)\<rparr>"

definition unsync_update :: "string set \<Rightarrow> model_state \<Rightarrow> model_state" where
  "unsync_update rs s = (touch Update s)\<lparr>unsync_repos := unsync_repos s \<union> rs\<rparr>"

definition call_s3 :: "s3_call \<Rightarrow> model_state \<Rightarrow> model_state" where
  "call_s3 c s = s\<lparr>s3_calls := s3_calls s @ [c]\<rparr>"

definition mkrepo :: "string \<Rightarrow> int \<Rightarrow> model_state \<Rightarrow> model_state" where
  "mkrepo sync_repo result s = s\<lparr>mkrepo_calls := mkrepo_calls s @ [(sync_repo, result)]\<rparr>"

definition sleep :: "nat \<Rightarrow> model_state \<Rightarrow> model_state" where
  "sleep n s = s\<lparr>slept := slept s @ [n]\<rparr>"

section \<open>Uploading a package\<close>

text \<open>
  \<open>dist_path\<close> of \<open>_upload_files\<close>: \<open>base_path\<close> is left out when it is \<open>None\<close> or empty.
\<close>

definition dist_path_of :: "s3_settings \<Rightarrow> package \<Rightarrow> string \<Rightarrow> string" where
  "dist_path_of st package series =
     (let dist_path_list = [repo_kind package, series, dist package]
      in join_slash
           (case base_path st of
              None \<Rightarrow> dist_path_list
            | Some b \<Rightarrow> if b \<noteq> [] then b # dist_path_list else dist_path_list))"

text \<open>
  The loop of \<open>_upload_files\<close> over \<open>package.files.items()\<close>. An exception of
  \<open>_format_paths\<close> ends it, and the calls made so far stay made.
\<close>

fun upload_loop ::
  "string \<Rightarrow> string \<Rightarrow> string \<Rightarrow> string \<Rightarrow> (string \<times> stream) list \<Rightarrow>
   (string \<rightharpoonup> copy_source) \<Rightarrow> string set \<Rightarrow> model_state \<Rightarrow>
   error option \<times> (string \<rightharpoonup> copy_source) \<times> string set \<times> model_state" where
  "upload_loop bucket dpath dver dbase [] origin_files unsync_repos_local s =
     (None, origin_files, unsync_repos_local, s)"
| "upload_loop bucket dpath dver dbase ((filename, file) # rest)
     origin_files unsync_repos_local s =
     (case format_paths dpath dver dbase filename of
        Inl e \<Rightarrow> (Some e, origin_files, unsync_repos_local, s)
      | Inr (repo_path, path) \<Rightarrow>
          (case origin_files filename of
             Some src \<Rightarrow>
               upload_loop bucket dpath dver dbase rest origin_files
                 (insert repo_path unsync_repos_local) (call_s3 (Copy src path) s)
           | None \<Rightarrow>
               upload_loop bucket dpath dver dbase rest
                 (origin_files(filename \<mapsto> (bucket, path)))
                 (insert repo_path unsync_repos_local) (call_s3 (Upload path file) s)))"

definition upload_files ::
  "s3_settings \<Rightarrow> package \<Rightarrow> string \<Rightarrow> (string \<rightharpoonup> copy_source) \<Rightarrow> model_state \<Rightarrow>
   error option \<times> (string \<rightharpoonup> copy_source) \<times> model_state" where
  "upload_files st package series origin_files s =
     (case map_of (sr_distrs (supported st)) (dist package) of
        None \<Rightarrow> (Some (KeyError (dist package)), origin_files, s)
      | Some d \<Rightarrow>
          (case upload_loop (bucket_name st) (dist_path_of st package series)
                  (dist_version package) (base d) (files package) origin_files {} s of
             (Some e, origin_files', unsync_repos_local, s') \<Rightarrow> (Some e, origin_files', s')
           | (None, origin_files', unsync_repos_local, s') \<Rightarrow>
               (None, origin_files', release (unsync_update unsync_repos_local (acquire s')))))"



text \<open>
  The four operations that are not implemented build a \<open>NotImplementedError\<close> and drop it:
  there is no \<open>raise\<close>, so each returns \<open>None\<close>.
\<close>

definition get_package :: "package \<Rightarrow> model_state \<Rightarrow> (error + unit) \<times> model_state" where
  "get_package package s =
     (let dropped = NotImplementedError ''get_package hasn't been implemented yet.''
      in (Inr (), s))"

definition delete_package :: "package \<Rightarrow> model_state \<Rightarrow> (error + unit) \<times> model_state" where
  "delete_package package s =
     (let dropped = NotImplementedError ''delete_package hasn't been implemented yet.''
      in (Inr (), s))"

definition get_file :: "string \<Rightarrow> model_state \<Rightarrow> (error + unit) \<times> model_state" where
  "get_file path s =
     (let dropped = NotImplementedError ''get_file hasn't been implemented yet.''
      in (Inr (), s))"

definition delete_file :: "string \<Rightarrow> model_state \<Rightarrow> (error + unit) \<times> model_state" where
  "delete_file path s =
     (let dropped = NotImplementedError ''delete_file hasn't been implemented yet.''
      in (Inr (), s))"

section \<open>Discovery of the repositories in the bucket\<close>









section \<open>The sync worker\<close>

datatype ctl = Continue | Break

text \<open>
  One pass through the body of \<open>while True\<close> in \<open>sync\<close>. What the thread does not decide
  is given: \<open>sync_repo\<close>, the element \<open>pop()\<close> hands out, and \<open>result\<close>, the exit status
  of the tool.
\<close>

definition sync_body :: "bool \<Rightarrow> string \<Rightarrow> int \<Rightarrow> model_state \<Rightarrow> ctl \<times> model_state" where
  "sync_body permanent sync_repo result s =
     (let s0 = unsync_truth s
      in if unsync_repos s \<noteq> {} then
           (let s1 = release (unsync_pop sync_repo (acquire s0));
                s2 = mkrepo sync_repo result s1;
                s3 = (if result \<noteq> 0 then release (unsync_add sync_repo (acquire s2)) else s2)
            in (Continue, s3))
         else if permanent then (Continue, sleep 5 s0)
         else (Break, s0))"

text \<open>\<open>pop()\<close> hands out an element of the set, whichever; the tool exits with any status.\<close>

inductive sync_iteration :: "bool \<Rightarrow> model_state \<Rightarrow> ctl \<Rightarrow> model_state \<Rightarrow> bool" where
  sync_iterationI:
    "unsync_repos s = {} \<or> sync_repo \<in> unsync_repos s \<Longrightarrow>
     sync_body permanent sync_repo result s = (c, s') \<Longrightarrow>
     sync_iteration permanent s c s'"

text \<open>\<open>sync permanent s s'\<close>: the call of \<open>sync\<close> from state \<open>s\<close> returns, in state \<open>s'\<close>.\<close>

inductive sync :: "bool \<Rightarrow> model_state \<Rightarrow> model_state \<Rightarrow> bool" where
  sync_break: "sync_iteration permanent s Break s' \<Longrightarrow> sync permanent s s'"
| sync_continue:
    "sync_iteration permanent s Continue s1 \<Longrightarrow> sync permanent s1 s' \<Longrightarrow> sync permanent s s'"

section \<open>A small configuration\<close>

text \<open>
  The state right after \<open>__init__\<close> (an empty \<open>unsync_repos\<close>, the lock free), and a
  configuration with one deb-based and one rpm-based distribution and two enabled series.
\<close>

definition init_state :: model_state where
  "init_state =
     \<lparr>unsync_repos = {}, sync_lock = False, accesses = [], s3_calls = [],
      mkrepo_calls = [], slept = []\<rparr>"

definition example_settings :: s3_settings where
  "example_settings =
     \<lparr>base_path = Some ''live'', bucket_name = ''packages'',
      supported =
        \<lparr>sr_repo_kind = [''release''],
         sr_tarantool_series = [''1.10'', ''2.8''],
         sr_enabled = [''1.10'', ''2.8''],
         sr_distrs =
           [(''ubuntu'', \<lparr>base = ''deb'', versions = [''disco'']\<rparr>),
            (''fedora'', \<lparr>base = ''rpm'', versions = [''31'']\<rparr>)]\<rparr>\<rparr>"


definition example_bad_package :: package where
  "example_bad_package =
     \<lparr>repo_kind = ''release'', tarantool_series = ''2.8'', dist = ''ubuntu'',
      dist_version = ''disco'',
      files = [(''small_1.0.deb'', ''bytes''), (''notes.txt'', ''text'')]\<rparr>"


section \<open>The matcher computes the language\<close>

lemma nullable_lang: "nullable r \<longleftrightarrow> [] \<in> lang r"
  by (induction r) (auto intro: star.intros)

lemma star_cons_iff:
  "a # w \<in> star A \<longleftrightarrow> (\<exists>u v. w = u @ v \<and> a # u \<in> A \<and> v \<in> star A)"
proof
  assume "a # w \<in> star A"
  then show "\<exists>u v. w = u @ v \<and> a # u \<in> A \<and> v \<in> star A"
  proof (induction "a # w" rule: star.induct)
    case (star_app u v)
    show ?case
    proof (cases u)
      case Nil
      with star_app show ?thesis by simp
    next
      case (Cons b u')
      with star_app.hyps show ?thesis by auto
    qed
  qed
next
  assume "\<exists>u v. w = u @ v \<and> a # u \<in> A \<and> v \<in> star A"
  then obtain u v where "w = u @ v" "a # u \<in> A" "v \<in> star A" by blast
  then show "a # w \<in> star A"
    using star.star_app [of "a # u" A v] by simp
qed

lemma lang_seqI: "u \<in> lang r \<Longrightarrow> v \<in> lang s \<Longrightarrow> u @ v \<in> lang (RSeq r s)"
  by auto

lemma deriv_lang: "w \<in> lang (deriv a r) \<longleftrightarrow> a # w \<in> lang r"
proof (induction r arbitrary: w)
  case (RSeq r s)
  show ?case
  proof
    assume "w \<in> lang (deriv a (RSeq r s))"
    then consider (l) u v where "w = u @ v" "u \<in> lang (deriv a r)" "v \<in> lang s"
      | (r) "nullable r" "w \<in> lang (deriv a s)"
      by (auto split: if_splits)
    then show "a # w \<in> lang (RSeq r s)"
    proof cases
      case l
      then have "a # u \<in> lang r" using RSeq.IH(1) by simp
      with l show ?thesis using lang_seqI [of "a # u" r v s] by simp
    next
      case r
      then have "[] \<in> lang r" "a # w \<in> lang s"
        using RSeq.IH(2) by (simp_all add: nullable_lang)
      then show ?thesis using lang_seqI [of "[]" r "a # w" s] by simp
    qed
  next
    assume "a # w \<in> lang (RSeq r s)"
    then obtain u v where uv: "a # w = u @ v" "u \<in> lang r" "v \<in> lang s" by auto
    show "w \<in> lang (deriv a (RSeq r s))"
    proof (cases u)
      case Nil
      with uv have "nullable r" "w \<in> lang (deriv a s)"
        using RSeq.IH(2) by (simp_all add: nullable_lang)
      then show ?thesis by simp
    next
      case (Cons b u')
      with uv have "w = u' @ v" "u' \<in> lang (deriv a r)"
        using RSeq.IH(1) by simp_all
      with uv(3) show ?thesis using lang_seqI [of u' "deriv a r" v s] by simp
    qed
  qed
next
  case (RStar r)
  show ?case
    by (auto simp: star_cons_iff RStar.IH)
qed auto

lemma re_fullmatch_lang: "re_fullmatch r w \<longleftrightarrow> w \<in> lang r"
  by (induction w arbitrary: r) (simp_all add: nullable_lang deriv_lang)

lemma lang_rlit: "lang (rlit s) = {s}"
  by (induction s) auto

lemma star_dot: "lang (RStar RDot) = {w. newline \<notin> set w}"
proof (intro set_eqI iffI)
  fix w assume "w \<in> lang (RStar RDot)"
  then have "w \<in> star (lang RDot)" by simp
  then show "w \<in> {w. newline \<notin> set w}"
    by (induction rule: star.induct) auto
next
  fix w assume "w \<in> {w. newline \<notin> set w}"
  then have "w \<in> star (lang RDot)"
  proof (induction w)
    case Nil show ?case by (rule star.star_nil)
  next
    case (Cons c w)
    then have "[c] \<in> lang RDot" "w \<in> star (lang RDot)" by auto
    then show ?case using star.star_app [of "[c]" "lang RDot" w] by simp
  qed
  then show "w \<in> lang (RStar RDot)" by simp
qed

lemma dotstar_seq:
  "re_fullmatch (RSeq (RStar RDot) r) w \<longleftrightarrow>
     (\<exists>pre x. w = pre @ x \<and> newline \<notin> set pre \<and> x \<in> lang r)"
  unfolding re_fullmatch_lang lang.simps(6) star_dot by auto

lemma dotstar_suffixes:
  assumes "lang r = set sufs" and "\<forall>x \<in> set sufs. newline \<notin> set x"
  shows "re_fullmatch (RSeq (RStar RDot) r) w \<longleftrightarrow>
     newline \<notin> set w \<and> (\<exists>x \<in> set sufs. suffix x w)"
proof
  assume "re_fullmatch (RSeq (RStar RDot) r) w"
  then obtain pre x where "w = pre @ x" "newline \<notin> set pre" "x \<in> set sufs"
    unfolding dotstar_seq assms(1) by blast
  with assms(2) show "newline \<notin> set w \<and> (\<exists>x \<in> set sufs. suffix x w)"
    by (auto simp: suffix_def)
next
  assume "newline \<notin> set w \<and> (\<exists>x \<in> set sufs. suffix x w)"
  then obtain x pre where "x \<in> set sufs" "w = pre @ x" "newline \<notin> set w"
    by (auto simp: suffix_def)
  then have "w = pre @ x \<and> newline \<notin> set pre \<and> x \<in> set sufs" by simp
  then show "re_fullmatch (RSeq (RStar RDot) r) w"
    unfolding dotstar_seq assms(1) by blast
qed

lemma lang_re_rpm_bin_tail:
  "lang (RSeq (RChr CHR ''.'') (RSeq (RAlt (rlit ''x86_64'') (rlit ''noarch'')) (rlit ''.rpm'')))
     = set [''.x86_64.rpm'', ''.noarch.rpm'']"
  unfolding lang.simps lang_rlit by auto

lemma lang_re_deb_tail:
  "lang (RSeq (RChr CHR ''.'')
         (RAlt (rlit ''deb'') (RAlt (rlit ''dsc'') (RAlt (rlit ''tar.xz'') (rlit ''tar.gz'')))))
     = set [''.deb'', ''.dsc'', ''.tar.xz'', ''.tar.gz'']"
  unfolding lang.simps lang_rlit by auto

lemma re_rpm_bin_iff:
  "re_fullmatch re_rpm_bin w \<longleftrightarrow>
     newline \<notin> set w \<and> (suffix ''.x86_64.rpm'' w \<or> suffix ''.noarch.rpm'' w)"
  unfolding re_rpm_bin_def
  by (subst dotstar_suffixes [OF lang_re_rpm_bin_tail]) (simp_all add: newline_def)

lemma re_rpm_src_iff:
  "re_fullmatch re_rpm_src w \<longleftrightarrow> newline \<notin> set w \<and> suffix ''.src.rpm'' w"
  unfolding re_rpm_src_def
  by (subst dotstar_suffixes [of _ "[''.src.rpm'']"]) (simp_all add: newline_def lang_rlit)

lemma re_deb_iff:
  "re_fullmatch re_deb w \<longleftrightarrow>
     newline \<notin> set w \<and>
     (suffix ''.deb'' w \<or> suffix ''.dsc'' w \<or> suffix ''.tar.xz'' w \<or> suffix ''.tar.gz'' w)"
  unfolding re_deb_def
  by (subst dotstar_suffixes [OF lang_re_deb_tail]) (simp_all add: newline_def)

lemma suffix_same_end:
  assumes "suffix a w" and "suffix b w" and "length a \<le> length b"
  shows "suffix a b"
proof -
  from assms(1,2) consider "suffix a b" | "suffix b a"
    using suffix_same_cases by blast
  then show ?thesis
  proof cases
    case 1
    then show ?thesis .
  next
    case 2
    then obtain zs where "a = zs @ b" by (auto simp: suffix_def)
    with assms(3) have "a = b" by simp
    then show ?thesis by simp
  qed
qed

lemma not_suffix_src_bin:
  "\<not> suffix ''.src.rpm'' ''.x86_64.rpm''" "\<not> suffix ''.src.rpm'' ''.noarch.rpm''"
  by (simp_all add: suffix_to_prefix)

lemma src_not_bin:
  assumes "suffix ''.src.rpm'' w"
  shows "\<not> suffix ''.x86_64.rpm'' w" and "\<not> suffix ''.noarch.rpm'' w"
proof -
  show "\<not> suffix ''.x86_64.rpm'' w"
  proof
    assume "suffix ''.x86_64.rpm'' w"
    with assms have "suffix ''.src.rpm'' ''.x86_64.rpm''"
      by (rule suffix_same_end) simp
    with not_suffix_src_bin(1) show False by blast
  qed
  show "\<not> suffix ''.noarch.rpm'' w"
  proof
    assume "suffix ''.noarch.rpm'' w"
    with assms have "suffix ''.src.rpm'' ''.noarch.rpm''"
      by (rule suffix_same_end) simp
    with not_suffix_src_bin(2) show False by blast
  qed
qed

section \<open>Path formatting: the two layouts and the errors\<close>

text \<open>
  Claim C1, as amended. For every filename that contains no newline character and ends in
  \<open>.x86_64.rpm\<close> or \<open>.noarch.rpm\<close>, \<open>_format_paths\<close> with base \<open>rpm\<close> returns
  \<open>repo_path = dist_path/dist_version/x86_64\<close> and \<open>path = repo_path/Packages/filename\<close>;
  for every such filename ending in \<open>.src.rpm\<close> it returns
  \<open>repo_path = dist_path/dist_version/SRPMS\<close> and \<open>path = repo_path/Packages/filename\<close>.
\<close>

theorem format_paths_rpm:
  assumes "newline \<notin> set filename"
  shows "(suffix ''.x86_64.rpm'' filename \<or> suffix ''.noarch.rpm'' filename \<longrightarrow>
            format_paths dist_path dver ''rpm'' filename =
              Inr (dist_path @ ''/'' @ dver @ ''/x86_64'',
                   dist_path @ ''/'' @ dver @ ''/x86_64'' @ ''/Packages/'' @ filename)) \<and>
         (suffix ''.src.rpm'' filename \<longrightarrow>
            format_paths dist_path dver ''rpm'' filename =
              Inr (dist_path @ ''/'' @ dver @ ''/SRPMS'',
                   dist_path @ ''/'' @ dver @ ''/SRPMS'' @ ''/Packages/'' @ filename))"
  using assms src_not_bin [of filename]
  by (auto simp: format_paths_def re_rpm_bin_iff re_rpm_src_iff simp del: re_fullmatch.simps)

theorem format_paths_rpm_witness:
  "newline \<notin> set ''tarantool-2.8.1-1.x86_64.rpm'' \<and>
   suffix ''.x86_64.rpm'' ''tarantool-2.8.1-1.x86_64.rpm'' \<and>
   format_paths ''repo/2.8/fedora'' ''31'' ''rpm'' ''tarantool-2.8.1-1.x86_64.rpm'' =
     Inr (''repo/2.8/fedora/31/x86_64'',
          ''repo/2.8/fedora/31/x86_64/Packages/tarantool-2.8.1-1.x86_64.rpm'') \<and>
   newline \<notin> set ''tarantool-2.8.1-1.src.rpm'' \<and>
   suffix ''.src.rpm'' ''tarantool-2.8.1-1.src.rpm'' \<and>
   format_paths ''repo/2.8/fedora'' ''31'' ''rpm'' ''tarantool-2.8.1-1.src.rpm'' =
     Inr (''repo/2.8/fedora/31/SRPMS'',
          ''repo/2.8/fedora/31/SRPMS/Packages/tarantool-2.8.1-1.src.rpm'')"
proof -
  have n1: "newline \<notin> set ''tarantool-2.8.1-1.x86_64.rpm''"
    and n2: "newline \<notin> set ''tarantool-2.8.1-1.src.rpm''"
    by (simp_all add: newline_def)
  have s1: "suffix ''.x86_64.rpm'' ''tarantool-2.8.1-1.x86_64.rpm''"
    and s2: "suffix ''.src.rpm'' ''tarantool-2.8.1-1.src.rpm''"
    by (simp_all add: suffix_to_prefix)
  show ?thesis
    using format_paths_rpm [OF n1, of "''repo/2.8/fedora''" "''31''"]
          format_paths_rpm [OF n2, of "''repo/2.8/fedora''" "''31''"] n1 n2 s1 s2
    by (simp del: re_fullmatch.simps)
qed

text \<open>
  Claim C1 as it is written fails: the dot of the pattern does not match a newline, so a
  filename with a newline before the extension is refused although it ends in
  \<open>.x86_64.rpm\<close>.
\<close>

theorem format_paths_rpm_newline_counterexample:
  "suffix ''.x86_64.rpm'' (''a'' @ newline # ''b.x86_64.rpm'') \<and>
   format_paths ''d'' ''v'' ''rpm'' (''a'' @ newline # ''b.x86_64.rpm'') =
     Inl (S3ModelRequestError (file_type_err (''a'' @ newline # ''b.x86_64.rpm'') ''rpm''))"
  by (simp add: format_paths_def re_rpm_bin_def re_rpm_src_def newline_def suffix_to_prefix)

text \<open>
  Claim C2, as amended. For every filename that contains no newline character and ends in
  \<open>.deb\<close>, \<open>.dsc\<close>, \<open>.tar.xz\<close> or \<open>.tar.gz\<close>, \<open>_format_paths\<close> with base \<open>deb\<close> returns
  \<open>repo_path = dist_path\<close> and
  \<open>path = repo_path/pool/dist_version/main/<first character>/<part before the first
  underscore>/filename\<close>; and \<open>tarantool_2.8.1-1_amd64.deb\<close> with \<open>repo/2.8/ubuntu\<close> and
  \<open>disco\<close> gives \<open>repo/2.8/ubuntu/pool/disco/main/t/tarantool/tarantool_2.8.1-1_amd64.deb\<close>.
\<close>

theorem format_paths_deb:
  assumes "newline \<notin> set filename"
    and "suffix ''.deb'' filename \<or> suffix ''.dsc'' filename \<or>
         suffix ''.tar.xz'' filename \<or> suffix ''.tar.gz'' filename"
  shows "format_paths dist_path dver ''deb'' filename =
           Inr (dist_path,
                dist_path @ ''/pool/'' @ dver @ ''/main/'' @ take 1 filename @ ''/'' @
                  takeWhile (\<lambda>c. c \<noteq> CHR ''_'') filename @ ''/'' @ filename) \<and>
         format_paths ''repo/2.8/ubuntu'' ''disco'' ''deb'' ''tarantool_2.8.1-1_amd64.deb'' =
           Inr (''repo/2.8/ubuntu'',
                ''repo/2.8/ubuntu/pool/disco/main/t/tarantool/tarantool_2.8.1-1_amd64.deb'')"
proof
  from assms show "format_paths dist_path dver ''deb'' filename =
           Inr (dist_path,
                dist_path @ ''/pool/'' @ dver @ ''/main/'' @ take 1 filename @ ''/'' @
                  takeWhile (\<lambda>c. c \<noteq> CHR ''_'') filename @ ''/'' @ filename)"
    by (simp add: format_paths_def re_deb_iff partition_head_def del: re_fullmatch.simps)
  show "format_paths ''repo/2.8/ubuntu'' ''disco'' ''deb'' ''tarantool_2.8.1-1_amd64.deb'' =
           Inr (''repo/2.8/ubuntu'',
                ''repo/2.8/ubuntu/pool/disco/main/t/tarantool/tarantool_2.8.1-1_amd64.deb'')"
    by (simp add: format_paths_def re_deb_def partition_head_def newline_def)
qed

theorem format_paths_deb_witness:
  "newline \<notin> set ''small_1.0.orig.tar.xz'' \<and> suffix ''.tar.xz'' ''small_1.0.orig.tar.xz'' \<and>
   format_paths ''live/1.10/ubuntu'' ''disco'' ''deb'' ''small_1.0.orig.tar.xz'' =
     Inr (''live/1.10/ubuntu'',
          ''live/1.10/ubuntu/pool/disco/main/s/small/small_1.0.orig.tar.xz'')"
proof -
  have n: "newline \<notin> set ''small_1.0.orig.tar.xz''"
    by (simp add: newline_def)
  have s: "suffix ''.tar.xz'' ''small_1.0.orig.tar.xz''"
    by (simp add: suffix_to_prefix)
  then have s': "suffix ''.deb'' ''small_1.0.orig.tar.xz'' \<or>
         suffix ''.dsc'' ''small_1.0.orig.tar.xz'' \<or>
         suffix ''.tar.xz'' ''small_1.0.orig.tar.xz'' \<or>
         suffix ''.tar.gz'' ''small_1.0.orig.tar.xz''"
    by blast
  show ?thesis
    using format_paths_deb [OF n s', of "''live/1.10/ubuntu''" "''disco''"] n s
    by (simp del: re_fullmatch.simps)
qed

text \<open>
  Claim C2 as it is written fails for the same reason: a newline before \<open>.deb\<close> makes the
  pattern fail.
\<close>

theorem format_paths_deb_newline_counterexample:
  "suffix ''.deb'' (''a_1'' @ newline # ''.deb'') \<and>
   format_paths ''d'' ''v'' ''deb'' (''a_1'' @ newline # ''.deb'') =
     Inl (S3ModelRequestError (file_type_err (''a_1'' @ newline # ''.deb'') ''deb''))"
  by (simp add: format_paths_def re_deb_def newline_def suffix_to_prefix)

text \<open>
  Claim C4. A filename that does not match the extensions of the base in use (it ends in
  none of them, or holds a newline) makes \<open>_format_paths\<close> fail with
  \<open>S3ModelRequestError\<close>, whose message contains the filename and the base; a base other
  than \<open>rpm\<close> and \<open>deb\<close> makes it fail with \<open>RuntimeError\<close>, never with
  \<open>S3ModelRequestError\<close>.
\<close>

theorem format_paths_errors:
  "(dist_base = ''rpm'' \<and>
      (newline \<in> set filename \<or>
       \<not> suffix ''.x86_64.rpm'' filename \<and> \<not> suffix ''.noarch.rpm'' filename \<and>
       \<not> suffix ''.src.rpm'' filename) \<or>
    dist_base = ''deb'' \<and>
      (newline \<in> set filename \<or>
       \<not> suffix ''.deb'' filename \<and> \<not> suffix ''.dsc'' filename \<and>
       \<not> suffix ''.tar.xz'' filename \<and> \<not> suffix ''.tar.gz'' filename) \<longrightarrow>
      format_paths dist_path dver dist_base filename =
        Inl (S3ModelRequestError (file_type_err filename dist_base)) \<and>
      sublist filename (file_type_err filename dist_base) \<and>
      sublist dist_base (file_type_err filename dist_base)) \<and>
   (dist_base \<noteq> ''rpm'' \<and> dist_base \<noteq> ''deb'' \<longrightarrow>
      (\<exists>msg. format_paths dist_path dver dist_base filename = Inl (RuntimeError msg)) \<and>
      (\<forall>msg. format_paths dist_path dver dist_base filename \<noteq>
         Inl (S3ModelRequestError msg)))"
proof -
  have "file_type_err filename dist_base =
          ''The \"'' @ filename @ (''\" file does not match the type of files used in the '' @
             dist_base @ ''-based repositories.'')"
    by (simp add: file_type_err_def)
  then have n1: "sublist filename (file_type_err filename dist_base)"
    using sublist_appendI by metis
  have "file_type_err filename dist_base =
          (''The \"'' @ filename @ ''\" file does not match the type of files used in the '') @
             dist_base @ ''-based repositories.''"
    by (simp add: file_type_err_def)
  then have n2: "sublist dist_base (file_type_err filename dist_base)"
    using sublist_appendI by metis
  show ?thesis
    using n1 n2
    by (auto simp: format_paths_def re_rpm_bin_iff re_rpm_src_iff re_deb_iff
        simp del: re_fullmatch.simps)
qed

theorem format_paths_errors_witness:
  "format_paths ''d'' ''v'' ''rpm'' ''small_1.0.deb'' =
     Inl (S3ModelRequestError
       ''The \"small_1.0.deb\" file does not match the type of files used in the rpm-based repositories.'') \<and>
   format_paths ''d'' ''v'' ''deb'' ''small-1.0.src.rpm'' =
     Inl (S3ModelRequestError
       ''The \"small-1.0.src.rpm\" file does not match the type of files used in the deb-based repositories.'') \<and>
   (\<exists>msg. format_paths ''d'' ''v'' ''apk'' ''small_1.0.deb'' = Inl (RuntimeError msg))"
proof -
  have a: "\<not> suffix ''.x86_64.rpm'' ''small_1.0.deb'' \<and> \<not> suffix ''.noarch.rpm'' ''small_1.0.deb'' \<and>
       \<not> suffix ''.src.rpm'' ''small_1.0.deb''"
    by (simp add: suffix_to_prefix)
  have b: "\<not> suffix ''.deb'' ''small-1.0.src.rpm'' \<and> \<not> suffix ''.dsc'' ''small-1.0.src.rpm'' \<and>
       \<not> suffix ''.tar.xz'' ''small-1.0.src.rpm'' \<and> \<not> suffix ''.tar.gz'' ''small-1.0.src.rpm''"
    by (simp add: suffix_to_prefix)
  have c: "''apk'' \<noteq> ''rpm'' \<and> ''apk'' \<noteq> ''deb''"
    by simp
  show ?thesis
    using format_paths_errors [of "''rpm''" "''small_1.0.deb''" "''d''" "''v''"]
          format_paths_errors [of "''deb''" "''small-1.0.src.rpm''" "''d''" "''v''"]
          format_paths_errors [of "''apk''" "''small_1.0.deb''" "''d''" "''v''"] a b c
    by (simp add: file_type_err_def del: re_fullmatch.simps)
qed

section \<open>The sync worker: retry, idling and the lock\<close>

lemmas state_ops = acquire_def release_def touch_def unsync_truth_def unsync_pop_def
  unsync_add_def unsync_update_def call_s3_def mkrepo_def sleep_def



lemma sync_iteration_iff:
  "sync_iteration permanent s c s' \<longleftrightarrow>
     (\<exists>sync_repo result. (unsync_repos s = {} \<or> sync_repo \<in> unsync_repos s) \<and>
        sync_body permanent sync_repo result s = (c, s'))"
  by (auto simp: sync_iteration.simps)

lemma sync_iteration_empty:
  assumes "unsync_repos s = {}"
  shows "sync_iteration permanent s c s' \<longleftrightarrow>
     (if permanent then c = Continue \<and> s' = sleep 5 (unsync_truth s)
      else c = Break \<and> s' = unsync_truth s)"
  using assms by (auto simp: sync_iteration_iff sync_body_def Let_def)

lemma sync_iteration_slept:
  assumes "sync_iteration False s c s'"
  shows "slept s' = slept s"
  using assms by (auto simp: sync_iteration_iff sync_body_def Let_def state_ops split: if_splits)

lemma sync_iteration_permanent:
  assumes "sync_iteration True s c s'"
  shows "c = Continue"
  using assms by (auto simp: sync_iteration_iff sync_body_def Let_def split: if_splits)

lemma sync_transient_slept:
  assumes "sync permanent s s'" and "\<not> permanent"
  shows "slept s' = slept s"
  using assms
proof (induction rule: sync.induct)
  case (sync_break permanent s s')
  then show ?case using sync_iteration_slept by simp
next
  case (sync_continue permanent s s1 s')
  then show ?case using sync_iteration_slept [of s Continue s1] by simp
qed

lemma sync_permanent_never_returns:
  assumes "sync permanent s s'"
  shows "\<not> permanent"
  using assms
proof (induction rule: sync.induct)
  case (sync_break permanent s s')
  then show ?case using sync_iteration_permanent [of s Break s'] by auto
next
  case (sync_continue permanent s s1 s')
  then show ?case by simp
qed

text \<open>
  Claim C6. When the worker loop finds \<open>unsync_repos\<close> empty, \<open>sync(False)\<close> leaves the
  loop in that pass and returns, and no call of \<open>sync(False)\<close> ever sleeps;
  \<open>sync(True)\<close> sleeps five seconds and goes round the loop again, and no call of
  \<open>sync(True)\<close> ever returns.
\<close>

theorem sync_empty_set:
  "(unsync_repos s = {} \<longrightarrow>
      (sync_iteration False s c s' \<longleftrightarrow> c = Break \<and> s' = unsync_truth s) \<and>
      sync False s (unsync_truth s) \<and>
      slept (unsync_truth s) = slept s \<and>
      (sync_iteration True s c s' \<longleftrightarrow> c = Continue \<and> s' = sleep 5 (unsync_truth s)) \<and>
      slept (sleep 5 (unsync_truth s)) = slept s @ [5] \<and>
      unsync_repos (sleep 5 (unsync_truth s)) = {}) \<and>
   (sync False s s' \<longrightarrow> slept s' = slept s) \<and>
   \<not> sync True s s'"
proof -
  have "sync False s (unsync_truth s)" if "unsync_repos s = {}"
  proof -
    have "sync_iteration False s Break (unsync_truth s)"
      using that by (simp add: sync_iteration_empty)
    then show ?thesis by (rule sync_break)
  qed
  moreover have "sync False s s' \<longrightarrow> slept s' = slept s"
    using sync_transient_slept by blast
  moreover have "\<not> sync True s s'"
    using sync_permanent_never_returns by blast
  ultimately show ?thesis
    by (simp add: sync_iteration_empty state_ops)
qed

theorem sync_empty_set_witness:
  "unsync_repos init_state = {} \<and>
   sync False init_state (unsync_truth init_state) \<and>
   slept (unsync_truth init_state) = [] \<and>
   sync_iteration True init_state Continue (sleep 5 (unsync_truth init_state)) \<and>
   slept (sleep 5 (unsync_truth init_state)) = [5] \<and>
   \<not> sync True init_state (sleep 5 (unsync_truth init_state))"
proof -
  have h: "unsync_repos init_state = {}"
    by (simp add: init_state_def)
  have e: "slept init_state = []"
    by (simp add: init_state_def)
  show ?thesis
    using sync_empty_set [of init_state Continue "sleep 5 (unsync_truth init_state)"]
          sync_empty_set [of init_state Break "unsync_truth init_state"] h e
    by simp
qed

text \<open>
  Claim C7 does not hold of \<open>sync\<close>: the test \<open>if self.unsync_repos\<close> reads the set
  before \<open>sync_lock.acquire()\<close>. In a pass from a state where the thread does not hold
  the lock, the first access is made without it; the \<open>pop()\<close> that follows is made with
  it.
\<close>

theorem sync_checks_unsync_repos_without_lock:
  "accesses (snd (sync_body False ''live/1.10/ubuntu'' 0
      (init_state\<lparr>unsync_repos := {''live/1.10/ubuntu''}\<rparr>))) =
     [(Truth, False), (Pop, True)]"
  by (simp add: sync_body_def Let_def state_ops init_state_def)

section \<open>Uploading: failures and the two enabled series\<close>

lemma upload_loop_unsync:
  "upload_loop b dp dv db fs origin local s = (e, origin', local', s') \<Longrightarrow>
     unsync_repos s' = unsync_repos s \<and> accesses s' = accesses s \<and> sync_lock s' = sync_lock s"
proof (induction fs arbitrary: origin local s)
  case Nil
  then show ?case by simp
next
  case (Cons x fs)
  obtain f strm where x: "x = (f, strm)" by (cases x)
  show ?case
    using Cons.prems Cons.IH unfolding x
    by (auto simp: call_s3_def split: sum.splits option.splits prod.splits)
qed

lemma upload_loop_fails:
  "(filename, file) \<in> set fs \<Longrightarrow> format_paths dp dv db filename = Inl e \<Longrightarrow>
     \<exists>e' origin' local' s'. upload_loop b dp dv db fs origin local s = (Some e', origin', local', s')"
proof (induction fs arbitrary: origin local s)
  case Nil
  then show ?case by simp
next
  case (Cons x fs)
  obtain f strm where x: "x = (f, strm)" by (cases x)
  show ?case
  proof (cases "format_paths dp dv db f")
    case (Inl e0)
    then show ?thesis unfolding x by simp
  next
    case (Inr r)
    with Cons.prems x have "(filename, file) \<in> set fs" by auto
    from Cons.IH [OF this Cons.prems(2)] Inr show ?thesis
      unfolding x by (auto split: option.splits prod.splits)
  qed
qed

text \<open>
  Claim C9. When a file of the package has a name that \<open>_format_paths\<close> refuses,
  \<open>_upload_files\<close> fails and \<open>unsync_repos\<close> is what it was before the call (no access
  to it is made at all), whatever was uploaded for the files before the refused one.
\<close>

theorem upload_files_failure_keeps_unsync_repos:
  assumes "map_of (sr_distrs (supported st)) (dist package) = Some d"
    and "(filename, file) \<in> set (files package)"
    and "format_paths (dist_path_of st package series) (dist_version package) (base d) filename
           = Inl e"
  shows "\<exists>e' origin_files' s'.
           upload_files st package series origin_files s = (Some e', origin_files', s') \<and>
           unsync_repos s' = unsync_repos s \<and> accesses s' = accesses s"
proof -
  obtain e' origin' local' s' where
    l: "upload_loop (bucket_name st) (dist_path_of st package series) (dist_version package)
          (base d) (files package) origin_files {} s = (Some e', origin', local', s')"
    using upload_loop_fails [OF assms(2,3)] by blast
  from upload_loop_unsync [OF l] have "unsync_repos s' = unsync_repos s \<and> accesses s' = accesses s"
    by simp
  with l assms(1) show ?thesis by (simp add: upload_files_def)
qed

theorem upload_files_failure_witness:
  "map_of (sr_distrs (supported example_settings)) (dist example_bad_package) =
     Some \<lparr>base = ''deb'', versions = [''disco'']\<rparr> \<and>
   (''notes.txt'', ''text'') \<in> set (files example_bad_package) \<and>
   format_paths (dist_path_of example_settings example_bad_package ''2.8'')
       (dist_version example_bad_package) ''deb'' ''notes.txt'' =
     Inl (S3ModelRequestError (file_type_err ''notes.txt'' ''deb'')) \<and>
   (\<exists>e' origin_files' s'.
      upload_files example_settings example_bad_package ''2.8'' Map.empty init_state =
        (Some e', origin_files', s') \<and>
      s3_calls s' =
        [Upload ''live/release/2.8/ubuntu/pool/disco/main/s/small/small_1.0.deb'' ''bytes''] \<and>
      unsync_repos s' = {} \<and> accesses s' = [])"
proof -
  have a: "map_of (sr_distrs (supported example_settings)) (dist example_bad_package) =
     Some \<lparr>base = ''deb'', versions = [''disco'']\<rparr>"
    by (simp add: example_settings_def example_bad_package_def)
  have b: "(''notes.txt'', ''text'') \<in> set (files example_bad_package)"
    by (simp add: example_bad_package_def)
  have c: "format_paths (dist_path_of example_settings example_bad_package ''2.8'')
       (dist_version example_bad_package) (base \<lparr>base = ''deb'', versions = [''disco'']\<rparr>)
       ''notes.txt'' = Inl (S3ModelRequestError (file_type_err ''notes.txt'' ''deb''))"
    by (simp add: format_paths_def re_deb_def newline_def)
  have d: "format_paths (dist_path_of example_settings example_bad_package ''2.8'') ''disco''
        ''deb'' ''small_1.0.deb'' =
      Inr (''live/release/2.8/ubuntu'',
           ''live/release/2.8/ubuntu/pool/disco/main/s/small/small_1.0.deb'')"
    by (simp add: format_paths_def re_deb_def newline_def partition_head_def dist_path_of_def
        example_settings_def example_bad_package_def)
  have e: "upload_files example_settings example_bad_package ''2.8'' Map.empty init_state =
      (Some (S3ModelRequestError (file_type_err ''notes.txt'' ''deb'')),
       [''small_1.0.deb'' \<mapsto> (''packages'',
          ''live/release/2.8/ubuntu/pool/disco/main/s/small/small_1.0.deb'')],
       call_s3 (Upload ''live/release/2.8/ubuntu/pool/disco/main/s/small/small_1.0.deb''
          ''bytes'') init_state)"
    using c d
    by (simp add: upload_files_def example_settings_def example_bad_package_def
        del: re_fullmatch.simps)
  show ?thesis
    using upload_files_failure_keeps_unsync_repos [OF a b c, of Map.empty init_state] a b c e
    by (simp add: call_s3_def init_state_def)
qed





section \<open>The operations that are not implemented\<close>

text \<open>
  Claim C10. \<open>get_package\<close>, \<open>delete_package\<close>, \<open>get_file\<close> and \<open>delete_file\<close>
  return \<open>None\<close> for every input, raise nothing and leave the state as it is.
\<close>

theorem stubs_return_none:
  "get_package package s = (Inr (), s) \<and> delete_package package s = (Inr (), s) \<and>
   get_file path s = (Inr (), s) \<and> delete_file path s = (Inr (), s)"
  by (simp add: get_package_def delete_package_def get_file_def delete_file_def)

section \<open>Discovered paths and formatted paths\<close>



















end
